theory Spec2Isabelle
  imports Complex_Main "HOL-Library.Sublist"
begin

section \<open>The obesity dashboard script \<^verbatim>\<open>app.py\<close>\<close>

text \<open>
  The program is a straight-line script: it reads a CSV file into a data frame, adds the
  derived column \<^verbatim>\<open>AgeBand\<close>, reads five sidebar widgets, selects the rows of the frame
  that pass a Boolean mask, and draws one bar chart of the selected rows.  The embedding
  follows the script statement by statement.  The calls into pandas, streamlit and plotly
  are modelled by what they compute on the values this script passes to them.
\<close>

subsection \<open>Cells, rows and frames\<close>

text \<open>
  A numeric CSV cell is a 64-bit float.  The script never does arithmetic on one, it only
  compares it with integer constants, and the comparison of a finite float with an integer
  is exact; so a finite cell is the real number it denotes, and the three non-finite values
  are kept apart.
\<close>

datatype float64 = Finite real | PosInf | NegInf | NaN

datatype error =
  FileNotFoundError | ValueError | KeyError | IndexingError | IndexError | NameError

text \<open>
  The columns of the CSV file that the script reads.  A text cell is the string it holds;
  the file may have further columns, which no statement of the script looks at.
\<close>

record csv_row =
  Gender :: string
  Age :: float64
  FAVC :: string
  FAF :: float64
  CALC :: string
  family_history_with_overweight :: string
  NObeyesdad :: string

text \<open>A row of \<^verbatim>\<open>df\<close> once line 6 has added the column; a missing band is \<open>None\<close>.\<close>

record df_row = csv_row +
  AgeBand :: "string option"

text \<open>
  A frame is the list of its rows in order, each with its index label.  \<^verbatim>\<open>read_csv\<close>
  labels the rows \<open>0, 1, 2, \<dots>\<close>; a selection of rows keeps the labels.
\<close>

type_synonym 'r frame = "(nat \<times> 'r) list"

definition read_csv :: "csv_row list option \<Rightarrow> error + csv_row frame" where
  "read_csv csv =
     (case csv of
        None \<Rightarrow> Inl FileNotFoundError
      | Some rows \<Rightarrow> Inr (zip [0..<length rows] rows))"

text \<open>\<^verbatim>\<open>df[c]\<close>: the values of one column, in row order.\<close>

definition col :: "('r \<Rightarrow> 'a) \<Rightarrow> 'r frame \<Rightarrow> 'a list" where
  "col c t = map (\<lambda>p. c (snd p)) t"

subsection \<open>The derived column: \<^verbatim>\<open>pd.cut\<close>\<close>

text \<open>
  \<^verbatim>\<open>pd.cut(x, bins, labels)\<close> with the default \<^verbatim>\<open>right=True\<close>,
  \<^verbatim>\<open>include_lowest=False\<close>: each value is located among the bin edges with
  \<^verbatim>\<open>searchsorted(side="left")\<close>, the number of edges that sort strictly before it;
  position \<open>0\<close> (at or below the first edge), position \<open>len(bins)\<close> (above the last edge)
  and a missing value give a missing label, any other position \<open>i\<close> gives
  \<open>labels[i - 1]\<close>.  The sort order of numpy puts NaN after every number.
\<close>

fun sorts_before :: "int \<Rightarrow> float64 \<Rightarrow> bool" where
  "sorts_before b (Finite r) = (of_int b < r)"
| "sorts_before b PosInf = True"
| "sorts_before b NegInf = False"
| "sorts_before b NaN = True"

definition searchsorted_left :: "int list \<Rightarrow> float64 \<Rightarrow> nat" where
  "searchsorted_left bins v = length (takeWhile (\<lambda>b. sorts_before b v) bins)"

definition isna :: "float64 \<Rightarrow> bool" where
  "isna v = (v = NaN)"

definition cut_value :: "int list \<Rightarrow> string list \<Rightarrow> float64 \<Rightarrow> string option" where
  "cut_value bins labels v =
     (let ids = searchsorted_left bins v
      in if isna v \<or> ids = length bins \<or> ids = 0 then None
         else Some (labels ! (ids - 1)))"

definition pd_cut :: "float64 list \<Rightarrow> int list \<Rightarrow> string list \<Rightarrow> error + string option list" where
  "pd_cut xs bins labels =
     (if \<not> sorted bins then Inl ValueError
      else if \<not> distinct bins \<and> length bins \<noteq> 2 then Inl ValueError
      else if \<not> distinct labels then Inl ValueError
      else if length labels \<noteq> length bins - 1 then Inl ValueError
      else Inr (map (cut_value bins labels) xs))"

definition age_bins :: "int list" where
  "age_bins = [0, 20, 25, 30, 40, 100]"

definition age_labels :: "string list" where
  "age_labels = [''<20'', ''20-25'', ''26-30'', ''31-40'', ''41+'']"

text \<open>Line 6: \<^verbatim>\<open>df["AgeBand"] = pd.cut(df["Age"], bins=..., labels=...)\<close>.\<close>

definition with_AgeBand :: "csv_row \<Rightarrow> string option \<Rightarrow> df_row" where
  "with_AgeBand r b =
     \<lparr>Gender = Gender r, Age = Age r, FAVC = FAVC r, FAF = FAF r, CALC = CALC r,
      family_history_with_overweight = family_history_with_overweight r,
      NObeyesdad = NObeyesdad r, AgeBand = b\<rparr>"

definition set_AgeBand :: "csv_row frame \<Rightarrow> error + df_row frame" where
  "set_AgeBand t =
     (case pd_cut (col Age t) age_bins age_labels of
        Inl e \<Rightarrow> Inl e
      | Inr bands \<Rightarrow> Inr (map2 (\<lambda>p b. (fst p, with_AgeBand (snd p) b)) t bands))"

text \<open>Lines 5 to 7 together: the frame \<^verbatim>\<open>df\<close> as every later statement sees it.\<close>

definition load :: "csv_row list option \<Rightarrow> error + df_row frame" where
  "load csv = (case read_csv csv of Inl e \<Rightarrow> Inl e | Inr t \<Rightarrow> set_AgeBand t)"

text \<open>
  The bucket table as the specification words it: left-open, right-closed intervals
  \<open>(0,20], (20,25], (25,30], (30,40], (40,100]\<close>, and no band outside \<open>(0,100]\<close>.
\<close>

fun age_band :: "float64 \<Rightarrow> string option" where
  "age_band (Finite a) =
     (if 0 < a \<and> a \<le> 20 then Some ''<20''
      else if 20 < a \<and> a \<le> 25 then Some ''20-25''
      else if 25 < a \<and> a \<le> 30 then Some ''26-30''
      else if 30 < a \<and> a \<le> 40 then Some ''31-40''
      else if 40 < a \<and> a \<le> 100 then Some ''41+''
      else None)"
| "age_band PosInf = None"
| "age_band NegInf = None"
| "age_band NaN = None"

subsection \<open>The widgets\<close>

text \<open>
  Lines 10 to 14.  A multi-select returns the list of the chosen options, the slider an
  integer; the script reads all five.  The options of a multi-select are the distinct
  values of a column and the slider ranges over \<open>0..3\<close>; the model lets the five values be
  any lists and any integer, which covers every value the widgets can return.
\<close>

record selection =
  gender :: "string list"
  favc :: "string list"
  faf :: int
  calc :: "string list"
  fh :: "string list"

subsection \<open>The row filter\<close>

text \<open>
  Each operand of \<^verbatim>\<open>&\<close> on lines 18 to 21 is either a Boolean column (one truth value per
  row) or the Python scalar \<^verbatim>\<open>True\<close>, which \<^verbatim>\<open>&\<close> broadcasts over a column.  All columns come
  from the same frame, so they carry the same labels and pair up by position; two columns
  of different lengths never meet here.
\<close>

datatype mask = Scalar bool | Series "bool list"

fun mask_and :: "mask \<Rightarrow> mask \<Rightarrow> mask" where
  "mask_and (Scalar a) (Scalar b) = Scalar (a \<and> b)"
| "mask_and (Scalar a) (Series bs) = Series (map (\<lambda>b. a \<and> b) bs)"
| "mask_and (Series as) (Scalar b) = Series (map (\<lambda>a. a \<and> b) as)"
| "mask_and (Series as) (Series bs) = Series (map2 (\<and>) as bs)"

text \<open>\<^verbatim>\<open>s.isin(values)\<close>: membership, value by value.\<close>

definition isin :: "string list \<Rightarrow> string list \<Rightarrow> bool list" where
  "isin s vals = map (\<lambda>v. v \<in> set vals) s"

text \<open>\<^verbatim>\<open>s >= n\<close> on a float column and an integer: false on NaN.\<close>

fun ge_int :: "float64 \<Rightarrow> int \<Rightarrow> bool" where
  "ge_int (Finite r) n = (of_int n \<le> r)"
| "ge_int PosInf n = True"
| "ge_int NegInf n = False"
| "ge_int NaN n = False"

definition ge_col :: "float64 list \<Rightarrow> int \<Rightarrow> bool list" where
  "ge_col s n = map (\<lambda>v. ge_int v n) s"

text \<open>
  \<^verbatim>\<open>df[m]\<close>: with a Boolean column of the frame's length, the rows whose entry is true,
  in order, under their labels.  A scalar key is looked up as a column name and is not
  one; a Boolean column of another length is refused.
\<close>

fun getitem :: "'r frame \<Rightarrow> mask \<Rightarrow> error + 'r frame" where
  "getitem t (Scalar b) = Inl KeyError"
| "getitem t (Series bs) =
     (if length bs \<noteq> length t then Inl IndexingError
      else Inr (map fst (filter snd (zip t bs))))"

text \<open>The mask of lines 18 to 21; the empty list is the falsy one.\<close>

definition filter_mask :: "df_row frame \<Rightarrow> selection \<Rightarrow> mask" where
  "filter_mask t sel =
     mask_and
       (mask_and
          (mask_and
             (if gender sel \<noteq> [] then Series (isin (col Gender t) (gender sel)) else Scalar True)
             (if favc sel \<noteq> [] then Series (isin (col FAVC t) (favc sel)) else Scalar True))
          (if calc sel \<noteq> [] then Series (isin (col CALC t) (calc sel)) else Scalar True))
       (Series (ge_col (col FAF t) (faf sel)))"

text \<open>Lines 17 to 22: the value assigned to \<^verbatim>\<open>filtered\<close>.\<close>

definition filtered :: "df_row frame \<Rightarrow> selection \<Rightarrow> error + df_row frame" where
  "filtered t sel = getitem t (filter_mask t sel)"

text \<open>The condition on one row as the specification words it.\<close>

definition row_passes :: "selection \<Rightarrow> df_row \<Rightarrow> bool" where
  "row_passes sel r =
     ((Gender r \<in> set (gender sel) \<or> gender sel = []) \<and>
      (FAVC r \<in> set (favc sel) \<or> favc sel = []) \<and>
      (CALC r \<in> set (calc sel) \<or> calc sel = []) \<and>
      ge_int (FAF r) (faf sel))"

text \<open>The same condition with the Gender dimension left out altogether.\<close>

definition row_passes_no_gender :: "selection \<Rightarrow> df_row \<Rightarrow> bool" where
  "row_passes_no_gender sel r =
     ((FAVC r \<in> set (favc sel) \<or> favc sel = []) \<and>
      (CALC r \<in> set (calc sel) \<or> calc sel = []) \<and>
      ge_int (FAF r) (faf sel))"

subsection \<open>The chart\<close>

text \<open>
  \<^verbatim>\<open>px.bar(filtered, x="Gender", color="NObeyesdad", title=...)\<close>.  No \<^verbatim>\<open>y\<close> is given and
  \<^verbatim>\<open>x\<close> is a column of strings, so plotly adds a column \<^verbatim>\<open>count\<close> that is \<open>1\<close> on every
  row and plots it on the value axis.  The rows are split by the colour column into one
  trace per distinct value, in the order the values first appear; a trace holds one bar
  mark per row, at the row's Gender, of height \<open>1\<close>.  The bar mode is \<^verbatim>\<open>relative\<close>: marks
  at the same category are stacked.  The legend is titled with the colour column once
  there is a trace to name; a frame without rows has no distinct value and gives a
  figure without traces and without a legend title.
\<close>

record trace =
  trace_name :: string
  trace_x :: "string list"
  trace_y :: "int list"

record figure =
  title :: string
  xaxis_title :: string
  yaxis_title :: string
  legend_title :: "string option"
  barmode :: string
  traces :: "trace list"

text \<open>\<^verbatim>\<open>Series.unique()\<close>: the distinct values in order of first appearance.\<close>

fun unique_from :: "'a list \<Rightarrow> 'a list \<Rightarrow> 'a list" where
  "unique_from seen [] = []"
| "unique_from seen (v # vs) =
     (if v \<in> set seen then unique_from seen vs else v # unique_from (seen @ [v]) vs)"

definition unique :: "'a list \<Rightarrow> 'a list" where
  "unique vs = unique_from [] vs"

definition group_rows :: "df_row frame \<Rightarrow> string \<Rightarrow> df_row frame" where
  "group_rows v c = filter (\<lambda>p. NObeyesdad (snd p) = c) v"

definition make_trace :: "df_row frame \<Rightarrow> string \<Rightarrow> trace" where
  "make_trace v c =
     \<lparr>trace_name = c,
      trace_x = col Gender (group_rows v c),
      trace_y = map (\<lambda>p. 1) (group_rows v c)\<rparr>"

text \<open>Line 25: the figure assigned to \<^verbatim>\<open>fig1\<close>, by what it holds.\<close>

definition fig1 :: "df_row frame \<Rightarrow> figure" where
  "fig1 v =
     \<lparr>title = ''Obesity by Gender'',
      xaxis_title = ''Gender'',
      yaxis_title = ''count'',
      legend_title = (if v = [] then None else Some ''NObeyesdad''),
      barmode = ''relative'',
      traces = map (make_trace v) (unique (col NObeyesdad v))\<rparr>"

text \<open>
  The call on line 25 by the steps plotly takes, with the place where it can raise.  The
  rows are grouped by the colour column; each group is turned into a trace, and the
  traces are collected in the animation frame they belong to.  No animation is asked
  for, so there is one frame, made when the first group is met, and none at all when
  there is no group.  The figure takes the traces of the first frame: plotly writes
  \<^verbatim>\<open>frame_list[0]["data"] if len(frame_list) > 0 else []\<close>, and \<^verbatim>\<open>frame_list[0]\<close> alone
  would raise on the empty list.  The legend title is set only when the loop over the
  groups has run.
\<close>

definition first_item :: "'a list \<Rightarrow> error + 'a" where
  "first_item xs = (case xs of [] \<Rightarrow> Inl IndexError | x # _ \<Rightarrow> Inr x)"

definition groups :: "df_row frame \<Rightarrow> (string \<times> df_row frame) list" where
  "groups v = map (\<lambda>c. (c, group_rows v c)) (unique (col NObeyesdad v))"

definition group_trace :: "string \<times> df_row frame \<Rightarrow> trace" where
  "group_trace gr =
     \<lparr>trace_name = fst gr,
      trace_x = col Gender (snd gr),
      trace_y = map (\<lambda>p. 1) (snd gr)\<rparr>"

definition frame_list :: "df_row frame \<Rightarrow> trace list list" where
  "frame_list v = (case groups v of [] \<Rightarrow> [] | gr # grs \<Rightarrow> [map group_trace (gr # grs)])"

definition andthen :: "error + 'a \<Rightarrow> ('a \<Rightarrow> error + 'b) \<Rightarrow> error + 'b" where
  "andthen m f = (case m of Inl e \<Rightarrow> Inl e | Inr a \<Rightarrow> f a)"

definition px_bar :: "df_row frame \<Rightarrow> error + figure" where
  "px_bar v =
     andthen (if 0 < length (frame_list v) then first_item (frame_list v) else Inr [])
       (\<lambda>data.
          Inr \<lparr>title = ''Obesity by Gender'',
               xaxis_title = ''Gender'',
               yaxis_title = ''count'',
               legend_title = (if groups v = [] then None else Some ''NObeyesdad''),
               barmode = ''relative'',
               traces = data\<rparr>)"

text \<open>The figure of a view without rows, written out.\<close>

definition empty_figure :: figure where
  "empty_figure =
     \<lparr>title = ''Obesity by Gender'', xaxis_title = ''Gender'', yaxis_title = ''count'',
      legend_title = None, barmode = ''relative'', traces = []\<rparr>"

text \<open>
  What the drawn chart shows for series \<open>c\<close> at category \<open>g\<close>: the stacked height of the
  marks of the traces named \<open>c\<close> that sit at \<open>g\<close>.
\<close>

definition marks_at :: "trace \<Rightarrow> string \<Rightarrow> int list" where
  "marks_at tr g = map snd (filter (\<lambda>m. fst m = g) (zip (trace_x tr) (trace_y tr)))"

definition bar_height :: "figure \<Rightarrow> string \<Rightarrow> string \<Rightarrow> int" where
  "bar_height f g c =
     sum_list (map (\<lambda>tr. sum_list (marks_at tr g)) (filter (\<lambda>tr. trace_name tr = c) (traces f)))"

text \<open>The number of rows of a view in the group \<open>(g, c)\<close>.\<close>

definition group_count :: "df_row frame \<Rightarrow> string \<Rightarrow> string \<Rightarrow> nat" where
  "group_count v g c = length (filter (\<lambda>p. Gender (snd p) = g \<and> NObeyesdad (snd p) = c) v)"

subsection \<open>The script as a sequence of statements\<close>

text \<open>
  The global variables after line 7, and the three statements that follow the widgets:
  line 17 assigns \<^verbatim>\<open>filtered\<close>, line 25 calls \<^verbatim>\<open>px.bar\<close> and assigns \<^verbatim>\<open>fig1\<close>, line 26 puts the
  figure on the page.  A statement that raises ends the run.
\<close>

record globals =
  df_var :: "df_row frame"
  filtered_var :: "df_row frame option"
  fig1_var :: "figure option"
  page :: "figure list"

definition after_load :: "df_row frame \<Rightarrow> globals" where
  "after_load t = \<lparr>df_var = t, filtered_var = None, fig1_var = None, page = []\<rparr>"

definition exec_filter :: "selection \<Rightarrow> globals \<Rightarrow> error + globals" where
  "exec_filter sel g =
     (case filtered (df_var g) sel of
        Inl e \<Rightarrow> Inl e
      | Inr v \<Rightarrow> Inr (g\<lparr>filtered_var := Some v\<rparr>))"

definition exec_chart :: "globals \<Rightarrow> error + globals" where
  "exec_chart g =
     (case filtered_var g of
        None \<Rightarrow> Inl NameError
      | Some v \<Rightarrow>
          (case px_bar v of
             Inl e \<Rightarrow> Inl e
           | Inr f \<Rightarrow> Inr (g\<lparr>fig1_var := Some f\<rparr>)))"

definition exec_show :: "globals \<Rightarrow> error + globals" where
  "exec_show g =
     (case fig1_var g of
        None \<Rightarrow> Inl NameError
      | Some f \<Rightarrow> Inr (g\<lparr>page := page g @ [f]\<rparr>))"

definition script :: "csv_row list option \<Rightarrow> selection \<Rightarrow> error + globals" where
  "script csv sel =
     andthen (andthen (andthen (andthen (load csv) (\<lambda>t. Inr (after_load t)))
       (exec_filter sel)) exec_chart) exec_show"

subsection \<open>A table of three rows\<close>

text \<open>
  The table of the specification's end-to-end scenario, the frame the script makes of it,
  and settings of the widgets: one that keeps the first and the third row, one that
  selects on FAVC alone, one that selects on CALC alone, and one that no row passes.
\<close>

definition row1 :: csv_row where
  "row1 = \<lparr>Gender = ''Male'', Age = Finite 25, FAVC = ''no'', FAF = Finite 1,
     CALC = ''Sometimes'', family_history_with_overweight = ''no'', NObeyesdad = ''Normal''\<rparr>"

definition row2 :: csv_row where
  "row2 = \<lparr>Gender = ''Female'', Age = Finite 19, FAVC = ''yes'', FAF = Finite 0,
     CALC = ''no'', family_history_with_overweight = ''yes'', NObeyesdad = ''Obesity''\<rparr>"

definition row3 :: csv_row where
  "row3 = \<lparr>Gender = ''Male'', Age = Finite 42, FAVC = ''no'', FAF = Finite 3,
     CALC = ''Frequently'', family_history_with_overweight = ''no'', NObeyesdad = ''Overweight''\<rparr>"

definition example_file :: "csv_row list option" where
  "example_file = Some [row1, row2, row3]"

definition example_df :: "df_row frame" where
  "example_df =
     [(0, with_AgeBand row1 (Some ''20-25'')),
      (1, with_AgeBand row2 (Some ''<20'')),
      (2, with_AgeBand row3 (Some ''41+''))]"

definition example_view :: "df_row frame" where
  "example_view =
     [(0, with_AgeBand row1 (Some ''20-25'')),
      (2, with_AgeBand row3 (Some ''41+''))]"

definition example_sel :: selection where
  "example_sel = \<lparr>gender = [''Male''], favc = [], faf = 1, calc = [], fh = []\<rparr>"

definition example_fig :: figure where
  "example_fig =
     \<lparr>title = ''Obesity by Gender'', xaxis_title = ''Gender'', yaxis_title = ''count'',
      legend_title = Some ''NObeyesdad'', barmode = ''relative'',
      traces =
        [\<lparr>trace_name = ''Normal'', trace_x = [''Male''], trace_y = [1]\<rparr>,
         \<lparr>trace_name = ''Overweight'', trace_x = [''Male''], trace_y = [1]\<rparr>]\<rparr>"

definition favc_yes_sel :: selection where
  "favc_yes_sel = \<lparr>gender = [], favc = [''yes''], faf = 0, calc = [], fh = []\<rparr>"

definition calc_no_sel :: selection where
  "calc_no_sel = \<lparr>gender = [], favc = [], faf = 0, calc = [''no''], fh = []\<rparr>"

definition no_match_sel :: selection where
  "no_match_sel = \<lparr>gender = [''Male''], favc = [''yes''], faf = 0, calc = [], fh = []\<rparr>"

section \<open>Properties\<close>

subsection \<open>Auxiliary facts\<close>

lemma cut_value_age_band: "cut_value age_bins age_labels v = age_band v"
  by (cases v) (simp_all add: cut_value_def searchsorted_left_def isna_def age_bins_def age_labels_def)

lemma pd_cut_ages: "pd_cut xs age_bins age_labels = Inr (map age_band xs)"
proof -
  have "map (cut_value age_bins age_labels) xs = map age_band xs"
    by (simp add: cut_value_age_band)
  moreover have "sorted age_bins" "distinct age_bins" "distinct age_labels"
    "length age_labels = length age_bins - 1"
    by (simp_all add: age_bins_def age_labels_def)
  ultimately show ?thesis by (simp add: pd_cut_def)
qed

lemma set_AgeBand_rows:
  "set_AgeBand t = Inr (map (\<lambda>p. (fst p, with_AgeBand (snd p) (age_band (Age (snd p))))) t)"
proof -
  have "map2 (\<lambda>p b. (fst p, with_AgeBand (snd p) b)) t (map (\<lambda>p. age_band (Age (snd p))) t)
        = map (\<lambda>p. (fst p, with_AgeBand (snd p) (age_band (Age (snd p))))) t"
    by (induction t) simp_all
  then show ?thesis by (simp add: set_AgeBand_def pd_cut_ages col_def comp_def)
qed

lemma load_rows:
  "load (Some rows) =
     Inr (map (\<lambda>p. (fst p, with_AgeBand (snd p) (age_band (Age (snd p))))) (zip [0..<length rows] rows))"
  by (simp add: load_def read_csv_def set_AgeBand_rows)

lemma load_AgeBand:
  assumes "load csv = Inr t" and "p \<in> set t"
  shows "AgeBand (snd p) = age_band (Age (snd p))"
proof (cases "csv")
  case None
  with assms show ?thesis by (simp add: load_def read_csv_def)
next
  case (Some rows)
  with assms show ?thesis by (auto simp: load_rows with_AgeBand_def)
qed

lemma map2_same: "map2 f (map g t) (map h t) = map (\<lambda>x. f (g x) (h x)) t"
  by (induction t) simp_all

lemma select_by_map: "map fst (filter snd (zip t (map P t))) = filter P t"
  by (induction t) simp_all

lemma filter_mask_Series:
  "filter_mask t sel = Series (map (\<lambda>p. row_passes sel (snd p)) t)"
  by (simp add: filter_mask_def isin_def ge_col_def col_def row_passes_def map2_same)

lemma filtered_filter: "filtered t sel = Inr (filter (\<lambda>p. row_passes sel (snd p)) t)"
  by (simp add: filtered_def filter_mask_Series select_by_map)

lemma unique_from_set: "set (unique_from seen vs) = set vs - set seen"
  by (induction seen vs rule: unique_from.induct) auto

lemma unique_from_distinct: "distinct (unique_from seen vs)"
  by (induction seen vs rule: unique_from.induct) (auto simp: unique_from_set)

lemma unique_set: "set (unique vs) = set vs"
  by (simp add: unique_def unique_from_set)

lemma unique_distinct: "distinct (unique vs)"
  by (simp add: unique_def unique_from_distinct)

lemma filter_eq_distinct:
  "distinct xs \<Longrightarrow> filter (\<lambda>x. x = c) xs = (if c \<in> set xs then [c] else [])"
  by (induction xs) auto

lemma marks_make_trace:
  "sum_list (marks_at (make_trace v c) g) = int (group_count v g c)"
proof -
  have "sum_list (map snd (filter (\<lambda>m. fst m = g) (zip (map (\<lambda>p. Gender (snd p)) w) (map (\<lambda>p. 1) w))))
        = int (length (filter (\<lambda>p. Gender (snd p) = g) w))" for w :: "df_row frame"
    by (induction w) simp_all
  then show ?thesis
    by (simp add: marks_at_def make_trace_def group_count_def group_rows_def col_def conj_commute)
qed

lemma group_count_absent:
  "c \<notin> set (col NObeyesdad v) \<Longrightarrow> group_count v g c = 0"
  by (auto simp: group_count_def col_def filter_empty_conv)

lemma traces_named:
  "filter (\<lambda>tr. trace_name tr = c) (traces (fig1 v))
     = (if c \<in> set (col NObeyesdad v) then [make_trace v c] else [])"
proof -
  have "filter (\<lambda>tr. trace_name tr = c) (map (make_trace v) us)
        = map (make_trace v) (filter (\<lambda>x. x = c) us)" for us
    by (induction us) (simp_all add: make_trace_def)
  then show ?thesis
    by (simp add: fig1_def filter_eq_distinct unique_distinct unique_set)
qed

lemma bar_height_count: "bar_height (fig1 v) g c = int (group_count v g c)"
  by (simp add: bar_height_def traces_named marks_make_trace group_count_absent)

lemma trace_names: "map trace_name (traces (fig1 v)) = unique (col NObeyesdad v)"
  by (simp add: fig1_def make_trace_def comp_def)

lemma unique_empty: "unique vs = [] \<longleftrightarrow> vs = []"
proof -
  have "set (unique vs) = {} \<longleftrightarrow> set vs = {}"
    by (simp only: unique_set)
  then show ?thesis by simp
qed

lemma groups_empty: "groups v = [] \<longleftrightarrow> v = []"
  by (simp add: groups_def unique_empty col_def)

lemma group_traces: "map group_trace (groups v) = map (make_trace v) (unique (col NObeyesdad v))"
  by (simp add: groups_def group_trace_def make_trace_def comp_def)

lemma first_frame_traces:
  "(if 0 < length (frame_list v) then first_item (frame_list v) else Inr [])
     = Inr (map (make_trace v) (unique (col NObeyesdad v)))"
proof (cases "groups v")
  case Nil
  moreover from Nil have "unique (col NObeyesdad v) = []"
    by (simp add: groups_def)
  ultimately show ?thesis by (simp add: frame_list_def)
next
  case (Cons gr grs)
  then have "frame_list v = [map group_trace (groups v)]"
    by (simp add: frame_list_def)
  then show ?thesis by (simp add: first_item_def group_traces)
qed

lemma unguarded_first_frame_raises: "first_item (frame_list []) = Inl IndexError"
  by (simp add: frame_list_def groups_def unique_def col_def first_item_def)

lemma px_bar_fig1: "px_bar v = Inr (fig1 v)"
  unfolding px_bar_def first_frame_traces
  by (simp add: andthen_def fig1_def groups_empty)

lemma fig1_empty: "fig1 v = empty_figure \<longleftrightarrow> v = []"
  by (auto simp: fig1_def empty_figure_def unique_def col_def)

lemmas example_defs = row1_def row2_def row3_def example_file_def example_df_def
  example_view_def example_sel_def example_fig_def with_AgeBand_def

lemma load_example: "load example_file = Inr example_df"
  by (simp add: example_file_def load_rows example_df_def with_AgeBand_def row1_def row2_def row3_def
      upt_rec [of 0] )

lemma filtered_example: "filtered example_df example_sel = Inr example_view"
  by (simp add: filtered_filter row_passes_def example_defs)

lemma fig1_example: "fig1 example_view = example_fig"
  by (simp add: fig1_def unique_def make_trace_def group_rows_def col_def example_defs)

lemma script_example:
  "script example_file example_sel =
     Inr \<lparr>df_var = example_df, filtered_var = Some example_view,
          fig1_var = Some example_fig, page = [example_fig]\<rparr>"
  by (simp add: script_def andthen_def load_example after_load_def exec_filter_def
      filtered_example exec_chart_def px_bar_fig1 fig1_example exec_show_def)

lemma heights_example:
  "bar_height example_fig ''Male'' ''Normal'' = 1"
  "bar_height example_fig ''Male'' ''Overweight'' = 1"
  "bar_height example_fig ''Female'' ''Obesity'' = 0"
  by (simp_all add: bar_height_def marks_at_def example_fig_def)

lemma filtered_no_match: "filtered example_df no_match_sel = Inr []"
  by (simp add: filtered_filter row_passes_def no_match_sel_def example_defs)

lemma exec_filter_view:
  "exec_filter sel g = Inr (g\<lparr>filtered_var := Some (filter (\<lambda>p. row_passes sel (snd p)) (df_var g))\<rparr>)"
  by (simp add: exec_filter_def filtered_filter)

lemma script_result:
  "load csv = Inr t \<Longrightarrow>
   script csv sel =
     Inr \<lparr>df_var = t,
          filtered_var = Some (filter (\<lambda>p. row_passes sel (snd p)) t),
          fig1_var = Some (fig1 (filter (\<lambda>p. row_passes sel (snd p)) t)),
          page = [fig1 (filter (\<lambda>p. row_passes sel (snd p)) t)]\<rparr>"
  by (simp add: script_def andthen_def after_load_def exec_filter_view exec_chart_def px_bar_fig1
      exec_show_def)

lemma script_load_error: "load csv = Inl e \<Longrightarrow> script csv sel = Inl e"
  by (simp add: script_def andthen_def)

lemma filter_filter_weaker:
  "(\<And>x. x \<in> set xs \<Longrightarrow> P x \<Longrightarrow> Q x) \<Longrightarrow> filter (\<lambda>x. Q x \<and> P x) xs = filter P xs"
  by (induction xs) auto

lemma subseq_filter_weaker:
  assumes "\<And>x. x \<in> set xs \<Longrightarrow> P x \<Longrightarrow> Q x"
  shows "subseq (filter P xs) (filter Q xs)"
proof -
  have "filter P xs = filter P (filter Q xs)"
    using assms by (simp add: filter_filter_weaker)
  then show ?thesis by (metis subseq_filter_left)
qed

lemma ge_int_mono: "n \<le> m \<Longrightarrow> ge_int v m \<Longrightarrow> ge_int v n"
  by (cases v) auto

subsection \<open>The row filter keeps exactly the rows that pass the mask\<close>

text \<open>
  Claim C1.  For every frame and every setting of the widgets, line 17 raises nothing and
  \<^verbatim>\<open>filtered\<close> holds exactly the rows, in order and under their labels, for which
  (Gender is selected or no gender is selected) and (FAVC is selected or none is) and
  (CALC is selected or none is) and FAF is at least the slider value.  With the Gender
  selection empty the result is the one obtained from the condition that leaves Gender
  out.
\<close>

theorem filtered_is_conjunction:
  "filtered t sel = Inr (filter (\<lambda>p. row_passes sel (snd p)) t) \<and>
   filtered t (sel\<lparr>gender := []\<rparr>) = Inr (filter (\<lambda>p. row_passes_no_gender sel (snd p)) t)"
  by (simp add: filtered_filter row_passes_def row_passes_no_gender_def)

theorem filtered_is_conjunction_witness:
  "filtered example_df example_sel = Inr example_view \<and>
   filtered example_df (example_sel\<lparr>gender := []\<rparr>) = Inr example_view"
  using filtered_is_conjunction [where t = example_df and sel = example_sel]
  by (simp add: row_passes_def row_passes_no_gender_def example_defs)

subsection \<open>The family-history selection is read and never used\<close>

text \<open>
  Claim C2.  Two runs that differ only in the family-history selection compute the same
  \<^verbatim>\<open>filtered\<close>, and the whole script ends in the same state (or the same error): the
  selection \<^verbatim>\<open>fh\<close> has no influence on the rows kept, hence none on their number.
\<close>

theorem family_history_never_filters:
  "filtered t (sel\<lparr>fh := x\<rparr>) = filtered t sel \<and>
   script csv (sel\<lparr>fh := x\<rparr>) = script csv sel"
proof -
  have "row_passes (sel\<lparr>fh := x\<rparr>) = row_passes sel"
    by (simp add: row_passes_def fun_eq_iff)
  then have f: "filtered t' (sel\<lparr>fh := x\<rparr>) = filtered t' sel" for t'
    by (simp add: filtered_filter)
  then have "exec_filter (sel\<lparr>fh := x\<rparr>) = exec_filter sel"
    by (simp add: exec_filter_def fun_eq_iff)
  with f show ?thesis by (simp add: script_def)
qed

theorem family_history_never_filters_witness:
  "filtered example_df (example_sel\<lparr>fh := [''yes'']\<rparr>) = Inr example_view \<and>
   script example_file (example_sel\<lparr>fh := [''yes'']\<rparr>) = script example_file example_sel"
  using family_history_never_filters
      [where t = example_df and sel = example_sel and x = "[''yes'']" and csv = example_file]
  by (simp add: filtered_example)

subsection \<open>The age bands\<close>

text \<open>
  Claim C3.  The column \<^verbatim>\<open>AgeBand\<close> is a function of \<^verbatim>\<open>Age\<close> alone: \<^verbatim>\<open>pd.cut\<close> with the
  script's edges and labels raises nothing and gives each age the label of the bucket
  \<open>(0,20]\<close>, \<open>(20,25]\<close>, \<open>(25,30]\<close>, \<open>(30,40]\<close>, \<open>(40,100]\<close> it lies in, left-open and
  right-closed.  Ages 19 and 20 get \<open><20\<close>, 21 gets \<open>20-25\<close>, 41 gets \<open>41+\<close>; an age outside
  \<open>(0,100]\<close> gets no band; and every row of the loaded frame carries the band of its age.
\<close>

theorem AgeBand_is_bucket_of_Age:
  "pd_cut ages age_bins age_labels = Inr (map age_band ages) \<and>
   pd_cut [Finite 19, Finite 20, Finite 21, Finite 41] age_bins age_labels
     = Inr [Some ''<20'', Some ''<20'', Some ''20-25'', Some ''41+''] \<and>
   (\<not> (0 < a \<and> a \<le> 100) \<longrightarrow> pd_cut [Finite a] age_bins age_labels = Inr [None]) \<and>
   (load csv = Inr t \<longrightarrow> (\<forall>p \<in> set t. AgeBand (snd p) = age_band (Age (snd p))))"
  by (auto simp: pd_cut_ages load_AgeBand)

theorem AgeBand_is_bucket_of_Age_witness:
  "pd_cut [Finite 25, Finite 19, Finite 42] age_bins age_labels
     = Inr [Some ''20-25'', Some ''<20'', Some ''41+''] \<and>
   pd_cut [Finite 101] age_bins age_labels = Inr [None] \<and>
   load example_file = Inr example_df \<and>
   AgeBand (snd (example_df ! 1)) = age_band (Age (snd (example_df ! 1)))"
  using AgeBand_is_bucket_of_Age
      [where ages = "[Finite 25, Finite 19, Finite 42]" and a = 101 and csv = example_file
         and t = example_df]
    load_example
  by (simp add: example_df_def)

subsection \<open>The slider is an inclusive lower bound\<close>

text \<open>
  Claim C4.  A row of the frame whose FAF equals the slider value, and which passes the
  Gender, FAVC and CALC selections, is in \<^verbatim>\<open>filtered\<close>.
\<close>

theorem faf_threshold_inclusive:
  assumes "(i, r) \<in> set t"
    and "FAF r = Finite (of_int (faf sel))"
    and "Gender r \<in> set (gender sel) \<or> gender sel = []"
    and "FAVC r \<in> set (favc sel) \<or> favc sel = []"
    and "CALC r \<in> set (calc sel) \<or> calc sel = []"
  shows "\<exists>v. filtered t sel = Inr v \<and> (i, r) \<in> set v"
  using assms by (simp add: filtered_filter row_passes_def)

theorem faf_threshold_inclusive_witness:
  "(0, with_AgeBand row1 (Some ''20-25'')) \<in> set example_df \<and>
   FAF (with_AgeBand row1 (Some ''20-25'')) = Finite (of_int (faf example_sel)) \<and>
   (\<exists>v. filtered example_df example_sel = Inr v \<and> (0, with_AgeBand row1 (Some ''20-25'')) \<in> set v)"
proof -
  have a: "(0, with_AgeBand row1 (Some ''20-25'')) \<in> set example_df"
    by (simp add: example_df_def)
  have b: "FAF (with_AgeBand row1 (Some ''20-25'')) = Finite (of_int (faf example_sel))"
    by (simp add: example_defs)
  have c: "Gender (with_AgeBand row1 (Some ''20-25'')) \<in> set (gender example_sel) \<or> gender example_sel = []"
    by (simp add: example_defs)
  have d: "FAVC (with_AgeBand row1 (Some ''20-25'')) \<in> set (favc example_sel) \<or> favc example_sel = []"
    by (simp add: example_defs)
  have e: "CALC (with_AgeBand row1 (Some ''20-25'')) \<in> set (calc example_sel) \<or> calc example_sel = []"
    by (simp add: example_defs)
  from faf_threshold_inclusive [OF a b c d e] a b show ?thesis by blast
qed

subsection \<open>The end-to-end scenario\<close>

text \<open>
  Claim C5.  On the three-row table, with Gender = [Male], the slider at 1 and the other
  selections empty, \<^verbatim>\<open>filtered\<close> is the first and the third row, and the figure has the
  two series Normal and Overweight, each with one mark of height 1 at the category Male;
  the script ends with that figure on the page.
\<close>

theorem three_row_scenario:
  "load example_file = Inr example_df \<and>
   filtered example_df example_sel = Inr example_view \<and>
   fig1 example_view = example_fig \<and>
   bar_height example_fig ''Male'' ''Normal'' = 1 \<and>
   bar_height example_fig ''Male'' ''Overweight'' = 1 \<and>
   script example_file example_sel =
     Inr \<lparr>df_var = example_df, filtered_var = Some example_view,
          fig1_var = Some example_fig, page = [example_fig]\<rparr>"
  by (simp add: load_example filtered_example fig1_example heights_example script_example)

subsection \<open>The chart counts the rows of each group\<close>

text \<open>
  Claim C6.  For every view, the bar that the figure shows for the series \<open>c\<close> at the
  category \<open>g\<close> is as high as the number of rows of the view with Gender \<open>g\<close> and
  NObeyesdad \<open>c\<close>; the title is "Obesity by Gender", the category axis is Gender, and
  there is exactly one series per NObeyesdad value of the view, each holding the Gender
  values of its rows.
\<close>

theorem chart_counts_groups:
  "bar_height (fig1 v) g c = int (group_count v g c) \<and>
   title (fig1 v) = ''Obesity by Gender'' \<and>
   xaxis_title (fig1 v) = ''Gender'' \<and>
   map trace_name (traces (fig1 v)) = unique (col NObeyesdad v) \<and>
   distinct (map trace_name (traces (fig1 v))) \<and>
   set (map trace_name (traces (fig1 v))) = set (col NObeyesdad v) \<and>
   (\<forall>tr \<in> set (traces (fig1 v)). trace_x tr = col Gender (group_rows v (trace_name tr)))"
proof -
  have "\<forall>tr \<in> set (traces (fig1 v)). trace_x tr = col Gender (group_rows v (trace_name tr))"
    by (auto simp: fig1_def make_trace_def)
  moreover have "title (fig1 v) = ''Obesity by Gender''" "xaxis_title (fig1 v) = ''Gender''"
    by (simp_all add: fig1_def)
  ultimately show ?thesis
    by (simp add: bar_height_count trace_names unique_distinct unique_set)
qed

theorem chart_counts_groups_witness:
  "bar_height (fig1 example_view) ''Male'' ''Normal'' = 1 \<and>
   group_count example_view ''Male'' ''Normal'' = 1 \<and>
   map trace_name (traces (fig1 example_view)) = [''Normal'', ''Overweight''] \<and>
   trace_x (hd (traces (fig1 example_view))) = [''Male'']"
proof -
  have h: "bar_height (fig1 example_view) ''Male'' ''Normal''
           = int (group_count example_view ''Male'' ''Normal'')"
    using chart_counts_groups [where v = example_view and g = "''Male''" and c = "''Normal''"]
    by (rule conjunct1)
  have gc: "group_count example_view ''Male'' ''Normal'' = 1"
    by (simp add: group_count_def example_defs)
  show ?thesis using h gc by (simp add: fig1_example example_fig_def)
qed

subsection \<open>An empty view is drawn as an empty chart\<close>

text \<open>
  Claim C7.  When the file loads and no row passes the mask, so that \<^verbatim>\<open>filtered\<close> has zero
  rows, the call of \<^verbatim>\<open>px.bar\<close> on line 25 does not raise: there is no group, hence no
  frame, and the guarded access yields no traces.  The figure it returns is the empty
  chart (title and axes as always, no series, no legend title, every bar of height 0),
  line 26 puts it on the page, and the script ends without an error.  The empty chart
  is what \<^verbatim>\<open>px.bar\<close> returns for a view without rows and for no other view.
\<close>

theorem empty_view_renders_empty_chart:
  assumes "load csv = Inr t" and "filtered t sel = Inr []"
  shows "px_bar [] = Inr empty_figure \<and>
         script csv sel =
           Inr \<lparr>df_var = t, filtered_var = Some [],
                fig1_var = Some empty_figure, page = [empty_figure]\<rparr> \<and>
         bar_height empty_figure g c = 0 \<and>
         (px_bar v = Inr empty_figure \<longleftrightarrow> v = [])"
proof -
  from assms(2) have "filter (\<lambda>p. row_passes sel (snd p)) t = []"
    by (simp add: filtered_filter)
  with assms(1) have "script csv sel =
      Inr \<lparr>df_var = t, filtered_var = Some [], fig1_var = Some (fig1 []), page = [fig1 []]\<rparr>"
    by (simp add: script_result)
  moreover have "fig1 [] = empty_figure"
    by (simp add: fig1_empty)
  moreover have "bar_height empty_figure g c = 0"
    by (simp add: bar_height_def empty_figure_def)
  moreover have "px_bar v = Inr empty_figure \<longleftrightarrow> v = []"
    by (simp add: px_bar_fig1 fig1_empty)
  ultimately show ?thesis
    by (simp add: px_bar_fig1)
qed

theorem empty_view_renders_empty_chart_witness:
  "load example_file = Inr example_df \<and> filtered example_df no_match_sel = Inr [] \<and>
   px_bar [] = Inr empty_figure \<and>
   script example_file no_match_sel =
     Inr \<lparr>df_var = example_df, filtered_var = Some [],
          fig1_var = Some empty_figure, page = [empty_figure]\<rparr> \<and>
   px_bar example_view \<noteq> Inr empty_figure"
proof -
  have ne: "example_view \<noteq> []"
    by (simp add: example_view_def)
  from empty_view_renders_empty_chart
      [OF load_example filtered_no_match, where v = example_view] ne
    load_example filtered_no_match
  show ?thesis by blast
qed

subsection \<open>Filtering neither changes the frame nor depends on an earlier filtering\<close>

text \<open>
  Claim C8.  From any state of the globals, line 17 succeeds and assigns \<^verbatim>\<open>filtered\<close>; it
  leaves \<^verbatim>\<open>df\<close>, and with it the column \<^verbatim>\<open>AgeBand\<close>, as it was; run again with the same
  widget values it assigns the same view again; and filtering the view itself with the
  same values gives the view back.
\<close>

theorem filtering_idempotent_nonmutating:
  "\<exists>g' v. exec_filter sel g = Inr g' \<and> filtered_var g' = Some v \<and>
      df_var g' = df_var g \<and> col AgeBand (df_var g') = col AgeBand (df_var g) \<and>
      exec_filter sel g' = Inr g' \<and> filtered v sel = Inr v"
  by (simp add: exec_filter_view filtered_filter)

theorem filtering_idempotent_nonmutating_witness:
  "\<exists>g' v. exec_filter example_sel (after_load example_df) = Inr g' \<and>
      filtered_var g' = Some v \<and> df_var g' = example_df \<and>
      exec_filter example_sel g' = Inr g' \<and> filtered v example_sel = Inr v"
  using filtering_idempotent_nonmutating [where sel = example_sel and g = "after_load example_df"]
  by (auto simp: after_load_def)

subsection \<open>The view is part of the frame, and the bands stay as loaded\<close>

text \<open>
  Claim C9.  When the file loads, the script runs to its end; at the end \<^verbatim>\<open>df\<close> is still
  the frame as loaded, \<^verbatim>\<open>filtered\<close> is a subsequence of its rows (rows of the same type, so
  with the same columns), and every row of \<^verbatim>\<open>df\<close> and of \<^verbatim>\<open>filtered\<close> carries the band that
  line 6 computed from its age.
\<close>

theorem view_subset_and_AgeBand_fixed:
  assumes "load csv = Inr t"
  shows "\<exists>g v. script csv sel = Inr g \<and> df_var g = t \<and> filtered_var g = Some v \<and>
           set v \<subseteq> set t \<and> subseq v t \<and>
           (\<forall>p \<in> set t. AgeBand (snd p) = age_band (Age (snd p))) \<and>
           (\<forall>p \<in> set v. AgeBand (snd p) = age_band (Age (snd p)))"
  using assms load_AgeBand [OF assms]
  by (auto simp: script_result)

theorem view_subset_and_AgeBand_fixed_witness:
  "load example_file = Inr example_df \<and>
   (\<exists>g v. script example_file example_sel = Inr g \<and> df_var g = example_df \<and>
      filtered_var g = Some v \<and> set v \<subseteq> set example_df \<and> subseq v example_df)"
  using view_subset_and_AgeBand_fixed [OF load_example, where sel = example_sel] load_example
  by blast

subsection \<open>Raising the slider narrows the view, widening a selection widens it\<close>

text \<open>
  Claim C10.  Line 17 succeeds for any two settings \<open>a\<close> and \<open>b\<close> of the widgets.  If \<open>b\<close>
  differs from \<open>a\<close> only by a slider value at least as high, the view of \<open>b\<close> is a
  subsequence of the view of \<open>a\<close>: no row is added.  If \<open>b\<close> differs from \<open>a\<close> only by
  more values in the Gender selection (or the FAVC, or the CALC selection), and that
  selection is not empty in \<open>a\<close>, the view of \<open>a\<close> is a subsequence of the view of \<open>b\<close>: no
  row is removed.
\<close>

theorem filter_antitone_monotone:
  "\<exists>va vb. filtered t a = Inr va \<and> filtered t b = Inr vb \<and>
     (faf a \<le> faf b \<and> gender b = gender a \<and> favc b = favc a \<and> calc b = calc a
        \<longrightarrow> subseq vb va \<and> set vb \<subseteq> set va) \<and>
     (gender a \<noteq> [] \<and> set (gender a) \<subseteq> set (gender b) \<and>
      favc b = favc a \<and> calc b = calc a \<and> faf b = faf a
        \<longrightarrow> subseq va vb \<and> set va \<subseteq> set vb) \<and>
     (favc a \<noteq> [] \<and> set (favc a) \<subseteq> set (favc b) \<and>
      gender b = gender a \<and> calc b = calc a \<and> faf b = faf a
        \<longrightarrow> subseq va vb \<and> set va \<subseteq> set vb) \<and>
     (calc a \<noteq> [] \<and> set (calc a) \<subseteq> set (calc b) \<and>
      gender b = gender a \<and> favc b = favc a \<and> faf b = faf a
        \<longrightarrow> subseq va vb \<and> set va \<subseteq> set vb)"
proof -
  have sub: "subseq (filter P t) (filter Q t) \<and> set (filter P t) \<subseteq> set (filter Q t)"
    if "\<And>x. P x \<Longrightarrow> Q x" for P Q :: "nat \<times> df_row \<Rightarrow> bool"
    using that by (auto intro: subseq_filter_weaker)
  have 1: "subseq (filter (\<lambda>p. row_passes b (snd p)) t) (filter (\<lambda>p. row_passes a (snd p)) t) \<and>
           set (filter (\<lambda>p. row_passes b (snd p)) t) \<subseteq> set (filter (\<lambda>p. row_passes a (snd p)) t)"
    if "faf a \<le> faf b" "gender b = gender a" "favc b = favc a" "calc b = calc a"
    by (rule sub) (use that in \<open>auto simp: row_passes_def intro: ge_int_mono\<close>)
  have 2: "subseq (filter (\<lambda>p. row_passes a (snd p)) t) (filter (\<lambda>p. row_passes b (snd p)) t) \<and>
           set (filter (\<lambda>p. row_passes a (snd p)) t) \<subseteq> set (filter (\<lambda>p. row_passes b (snd p)) t)"
    if "gender a \<noteq> []" "set (gender a) \<subseteq> set (gender b)" "favc b = favc a" "calc b = calc a"
      "faf b = faf a"
    by (rule sub) (use that in \<open>auto simp: row_passes_def\<close>)
  have 3: "subseq (filter (\<lambda>p. row_passes a (snd p)) t) (filter (\<lambda>p. row_passes b (snd p)) t) \<and>
           set (filter (\<lambda>p. row_passes a (snd p)) t) \<subseteq> set (filter (\<lambda>p. row_passes b (snd p)) t)"
    if "favc a \<noteq> []" "set (favc a) \<subseteq> set (favc b)" "gender b = gender a" "calc b = calc a"
      "faf b = faf a"
    by (rule sub) (use that in \<open>auto simp: row_passes_def\<close>)
  have 4: "subseq (filter (\<lambda>p. row_passes a (snd p)) t) (filter (\<lambda>p. row_passes b (snd p)) t) \<and>
           set (filter (\<lambda>p. row_passes a (snd p)) t) \<subseteq> set (filter (\<lambda>p. row_passes b (snd p)) t)"
    if "calc a \<noteq> []" "set (calc a) \<subseteq> set (calc b)" "gender b = gender a" "favc b = favc a"
      "faf b = faf a"
    by (rule sub) (use that in \<open>auto simp: row_passes_def\<close>)
  show ?thesis
    unfolding filtered_filter using 1 2 3 4 by blast
qed

theorem filter_antitone_monotone_witness:
  "filtered example_df (example_sel\<lparr>faf := 3\<rparr>) = Inr [(2, with_AgeBand row3 (Some ''41+''))] \<and>
   filtered example_df example_sel = Inr example_view \<and>
   subseq [(2, with_AgeBand row3 (Some ''41+''))] example_view \<and>
   filtered example_df (example_sel\<lparr>faf := 0\<rparr>) = Inr example_view \<and>
   filtered example_df (example_sel\<lparr>faf := 0, gender := [''Male'', ''Female'']\<rparr>) = Inr example_df \<and>
   subseq example_view example_df \<and>
   filtered example_df favc_yes_sel = Inr [(1, with_AgeBand row2 (Some ''<20''))] \<and>
   filtered example_df (favc_yes_sel\<lparr>favc := [''yes'', ''no'']\<rparr>) = Inr example_df \<and>
   subseq [(1, with_AgeBand row2 (Some ''<20''))] example_df \<and>
   filtered example_df calc_no_sel = Inr [(1, with_AgeBand row2 (Some ''<20''))] \<and>
   filtered example_df (calc_no_sel\<lparr>calc := [''no'', ''Sometimes'']\<rparr>)
     = Inr [(0, with_AgeBand row1 (Some ''20-25'')), (1, with_AgeBand row2 (Some ''<20''))] \<and>
   subseq [(1, with_AgeBand row2 (Some ''<20''))]
     [(0, with_AgeBand row1 (Some ''20-25'')), (1, with_AgeBand row2 (Some ''<20''))]"
proof -
  note ev = filtered_filter row_passes_def example_defs favc_yes_sel_def calc_no_sel_def
  have a1: "filtered example_df example_sel = Inr example_view"
    by (rule filtered_example)
  have b1: "filtered example_df (example_sel\<lparr>faf := 3\<rparr>) = Inr [(2, with_AgeBand row3 (Some ''41+''))]"
    by (simp add: ev)
  have h1: "faf example_sel \<le> faf (example_sel\<lparr>faf := 3\<rparr>)"
    by (simp add: example_sel_def)
  from filter_antitone_monotone
      [where t = example_df and a = example_sel and b = "example_sel\<lparr>faf := 3\<rparr>"] a1 b1 h1
  have s1: "subseq [(2, with_AgeBand row3 (Some ''41+''))] example_view"
    by auto
  have a2: "filtered example_df (example_sel\<lparr>faf := 0\<rparr>) = Inr example_view"
    by (simp add: ev)
  have b2: "filtered example_df (example_sel\<lparr>faf := 0, gender := [''Male'', ''Female'']\<rparr>)
              = Inr example_df"
    by (simp add: ev)
  have h2: "gender (example_sel\<lparr>faf := 0\<rparr>) \<noteq> []"
    "set (gender (example_sel\<lparr>faf := 0\<rparr>))
       \<subseteq> set (gender (example_sel\<lparr>faf := 0, gender := [''Male'', ''Female'']\<rparr>))"
    by (simp_all add: example_sel_def)
  from filter_antitone_monotone
      [where t = example_df and a = "example_sel\<lparr>faf := 0\<rparr>"
         and b = "example_sel\<lparr>faf := 0, gender := [''Male'', ''Female'']\<rparr>"] a2 b2 h2
  have s2: "subseq example_view example_df"
    by auto
  have a3: "filtered example_df favc_yes_sel = Inr [(1, with_AgeBand row2 (Some ''<20''))]"
    by (simp add: ev)
  have b3: "filtered example_df (favc_yes_sel\<lparr>favc := [''yes'', ''no'']\<rparr>) = Inr example_df"
    by (simp add: ev)
  have h3: "favc favc_yes_sel \<noteq> []"
    "set (favc favc_yes_sel) \<subseteq> set (favc (favc_yes_sel\<lparr>favc := [''yes'', ''no'']\<rparr>))"
    by (simp_all add: favc_yes_sel_def)
  from filter_antitone_monotone
      [where t = example_df and a = favc_yes_sel and b = "favc_yes_sel\<lparr>favc := [''yes'', ''no'']\<rparr>"]
    a3 b3 h3
  have s3: "subseq [(1, with_AgeBand row2 (Some ''<20''))] example_df"
    by auto
  have a4: "filtered example_df calc_no_sel = Inr [(1, with_AgeBand row2 (Some ''<20''))]"
    by (simp add: ev)
  have b4: "filtered example_df (calc_no_sel\<lparr>calc := [''no'', ''Sometimes'']\<rparr>)
              = Inr [(0, with_AgeBand row1 (Some ''20-25'')), (1, with_AgeBand row2 (Some ''<20''))]"
    by (simp add: ev)
  have h4: "calc calc_no_sel \<noteq> []"
    "set (calc calc_no_sel) \<subseteq> set (calc (calc_no_sel\<lparr>calc := [''no'', ''Sometimes'']\<rparr>))"
    by (simp_all add: calc_no_sel_def)
  from filter_antitone_monotone
      [where t = example_df and a = calc_no_sel and b = "calc_no_sel\<lparr>calc := [''no'', ''Sometimes'']\<rparr>"]
    a4 b4 h4
  have s4: "subseq [(1, with_AgeBand row2 (Some ''<20''))]
              [(0, with_AgeBand row1 (Some ''20-25'')), (1, with_AgeBand row2 (Some ''<20''))]"
    by auto
  from a1 b1 s1 a2 b2 s2 a3 b3 s3 a4 b4 s4 show ?thesis by blast
qed

end
